theory Spec2Isabelle
  imports Complex_Main
begin

section \<open>JavaScript numbers\<close>

text \<open>
  The analysis code of \<^verbatim>\<open>src/app/api/cycle-analysis/route.ts\<close> computes on values of
  the TypeScript type \<^verbatim>\<open>number\<close>. A number is modelled as a finite value, on which
  arithmetic is exact (a real), or one of the three special values of IEEE-754: the
  rounding and the overflow of 64-bit doubles are left out, the special values and the
  rules that produce and propagate them (a division by zero, \<^verbatim>\<open>Infinity - Infinity\<close>,
  \<^verbatim>\<open>0 * Infinity\<close>, any operation on \<^verbatim>\<open>NaN\<close>) are kept. The zero is the positive zero.
\<close>

datatype number = Fin real | PInf | NInf | NaN

fun isFinite :: "number \<Rightarrow> bool" where
  "isFinite (Fin a) = True"
| "isFinite PInf = False"
| "isFinite NInf = False"
| "isFinite NaN = False"

fun nneg :: "number \<Rightarrow> number" where
  "nneg (Fin a) = Fin (- a)"
| "nneg PInf = NInf"
| "nneg NInf = PInf"
| "nneg NaN = NaN"

fun nadd :: "number \<Rightarrow> number \<Rightarrow> number" where
  "nadd (Fin a) (Fin b) = Fin (a + b)"
| "nadd (Fin a) PInf = PInf"
| "nadd (Fin a) NInf = NInf"
| "nadd PInf (Fin b) = PInf"
| "nadd PInf PInf = PInf"
| "nadd PInf NInf = NaN"
| "nadd NInf (Fin b) = NInf"
| "nadd NInf PInf = NaN"
| "nadd NInf NInf = NInf"
| "nadd NaN y = NaN"
| "nadd x NaN = NaN"

definition nsub :: "number \<Rightarrow> number \<Rightarrow> number" where
  "nsub x y = nadd x (nneg y)"

fun nmul :: "number \<Rightarrow> number \<Rightarrow> number" where
  "nmul (Fin a) (Fin b) = Fin (a * b)"
| "nmul (Fin a) PInf = (if a = 0 then NaN else if 0 < a then PInf else NInf)"
| "nmul (Fin a) NInf = (if a = 0 then NaN else if 0 < a then NInf else PInf)"
| "nmul PInf (Fin b) = (if b = 0 then NaN else if 0 < b then PInf else NInf)"
| "nmul NInf (Fin b) = (if b = 0 then NaN else if 0 < b then NInf else PInf)"
| "nmul PInf PInf = PInf"
| "nmul PInf NInf = NInf"
| "nmul NInf PInf = NInf"
| "nmul NInf NInf = PInf"
| "nmul NaN y = NaN"
| "nmul x NaN = NaN"

fun ndiv :: "number \<Rightarrow> number \<Rightarrow> number" where
  "ndiv (Fin a) (Fin b) =
     (if b = 0 then (if a = 0 then NaN else if 0 < a then PInf else NInf)
      else Fin (a / b))"
| "ndiv (Fin a) PInf = Fin 0"
| "ndiv (Fin a) NInf = Fin 0"
| "ndiv PInf (Fin b) = (if 0 \<le> b then PInf else NInf)"
| "ndiv NInf (Fin b) = (if 0 \<le> b then NInf else PInf)"
| "ndiv PInf PInf = NaN"
| "ndiv PInf NInf = NaN"
| "ndiv NInf PInf = NaN"
| "ndiv NInf NInf = NaN"
| "ndiv NaN y = NaN"
| "ndiv x NaN = NaN"

text \<open>\<^verbatim>\<open>x ** 2\<close>\<close>

definition npow2 :: "number \<Rightarrow> number" where
  "npow2 x = nmul x x"

text \<open>\<^verbatim>\<open>x > y\<close>: false as soon as one side is \<^verbatim>\<open>NaN\<close>.\<close>

fun ngt :: "number \<Rightarrow> number \<Rightarrow> bool" where
  "ngt (Fin a) (Fin b) = (b < a)"
| "ngt (Fin a) PInf = False"
| "ngt (Fin a) NInf = True"
| "ngt PInf (Fin b) = True"
| "ngt PInf PInf = False"
| "ngt PInf NInf = True"
| "ngt NInf y = False"
| "ngt NaN y = False"
| "ngt PInf NaN = False"
| "ngt (Fin a) NaN = False"

text \<open>\<^verbatim>\<open>values.length\<close>, a loop counter: a natural number read as a number.\<close>

definition ofNat :: "nat \<Rightarrow> number" where
  "ofNat k = Fin (real k)"

section \<open>Data model\<close>


text \<open>
  Reading a property of \<^verbatim>\<open>undefined\<close> (\<^verbatim>\<open>points[0].timestamp\<close> on an empty array) is the
  one operation of the analysis functions that can throw.
\<close>

datatype error = TypeError

section \<open>Trend estimation\<close>

text \<open>\<^verbatim>\<open>values.reduce((acc, val) => acc + val, 0) / values.length\<close>, and 0 on the empty array.\<close>

definition mean :: "number list \<Rightarrow> number" where
  "mean values =
     (if length values = 0 then Fin 0
      else ndiv (foldl (\<lambda>acc val. nadd acc val) (Fin 0) values) (ofNat (length values)))"



section \<open>Spectral decomposition\<close>

record CycleComponent =
  index :: nat
  frequency :: number
  amplitude :: number
  phase :: number
  periodSamples :: number

text \<open>
  The functions of \<^verbatim>\<open>Math\<close> that the decomposition calls, after ECMAScript: the cosine
  and the sine of an infinity are \<^verbatim>\<open>NaN\<close>, the square root of a negative number is
  \<^verbatim>\<open>NaN\<close>, and \<^verbatim>\<open>Math.atan2(y, x)\<close> is the angle of the point \<open>(x, y)\<close> in
  \<open>(-\<pi>, \<pi>]\<close>, with the values ECMAScript fixes for the origin and for infinite arguments.
\<close>

definition MathPI :: number where
  "MathPI = Fin pi"

fun MathCos :: "number \<Rightarrow> number" where
  "MathCos (Fin a) = Fin (cos a)"
| "MathCos PInf = NaN"
| "MathCos NInf = NaN"
| "MathCos NaN = NaN"

fun MathSin :: "number \<Rightarrow> number" where
  "MathSin (Fin a) = Fin (sin a)"
| "MathSin PInf = NaN"
| "MathSin NInf = NaN"
| "MathSin NaN = NaN"

fun MathSqrt :: "number \<Rightarrow> number" where
  "MathSqrt (Fin a) = (if a < 0 then NaN else Fin (sqrt a))"
| "MathSqrt PInf = PInf"
| "MathSqrt NInf = NaN"
| "MathSqrt NaN = NaN"

definition atan2 :: "real \<Rightarrow> real \<Rightarrow> real" where
  "atan2 y x =
     (if 0 < x then arctan (y / x)
      else if x < 0 then (if 0 \<le> y then arctan (y / x) + pi else arctan (y / x) - pi)
      else if 0 < y then pi / 2
      else if y < 0 then - (pi / 2)
      else 0)"

fun MathAtan2 :: "number \<Rightarrow> number \<Rightarrow> number" where
  "MathAtan2 (Fin y) (Fin x) = Fin (atan2 y x)"
| "MathAtan2 (Fin y) PInf = Fin 0"
| "MathAtan2 (Fin y) NInf = (if 0 \<le> y then Fin pi else Fin (- pi))"
| "MathAtan2 PInf (Fin x) = Fin (pi / 2)"
| "MathAtan2 PInf PInf = Fin (pi / 4)"
| "MathAtan2 PInf NInf = Fin (3 * pi / 4)"
| "MathAtan2 NInf (Fin x) = Fin (- (pi / 2))"
| "MathAtan2 NInf PInf = Fin (- (pi / 4))"
| "MathAtan2 NInf NInf = Fin (- (3 * pi / 4))"
| "MathAtan2 NaN x = NaN"
| "MathAtan2 y NaN = NaN"

text \<open>
  \<^verbatim>\<open>Array.prototype.sort(comparator)\<close> is stable (ECMAScript 2019): it is modelled as the
  stable insertion sort. An element goes behind the elements that the comparator puts
  before it (a result \<^verbatim>\<open>> 0\<close>); a comparator result \<^verbatim>\<open>NaN\<close> counts as 0.
\<close>

fun insertBy :: "('a \<Rightarrow> 'a \<Rightarrow> number) \<Rightarrow> 'a \<Rightarrow> 'a list \<Rightarrow> 'a list" where
  "insertBy comparator x [] = [x]"
| "insertBy comparator x (y # ys) =
     (if ngt (comparator x y) (Fin 0) then y # insertBy comparator x ys else x # y # ys)"

fun sortBy :: "('a \<Rightarrow> 'a \<Rightarrow> number) \<Rightarrow> 'a list \<Rightarrow> 'a list" where
  "sortBy comparator [] = []"
| "sortBy comparator (x # xs) = insertBy comparator x (sortBy comparator xs)"

text \<open>
  The body of the loop over the harmonics \<open>k\<close> (lines 81 to 102): the inner loop over the
  samples \<open>t\<close> accumulates \<^verbatim>\<open>real\<close> and \<^verbatim>\<open>imag\<close>, and the component is built from them.
\<close>

definition harmonic :: "nat \<Rightarrow> number list \<Rightarrow> nat \<Rightarrow> CycleComponent" where
  "harmonic n centered k =
     (let (real_k, imag_k) =
            foldl (\<lambda>(real_k, imag_k) t.
                     (let angle = ndiv (nmul (nmul (nmul (Fin (- 2)) MathPI) (ofNat k)) (ofNat t))
                                       (ofNat n)
                      in (nadd real_k (nmul (centered ! t) (MathCos angle)),
                          nadd imag_k (nmul (centered ! t) (MathSin angle)))))
                  (Fin 0, Fin 0) [0..<n];
          magnitude = MathSqrt (nadd (npow2 real_k) (npow2 imag_k));
          amplitude_k = ndiv (nmul (Fin 2) magnitude) (ofNat n);
          phase_k = MathAtan2 imag_k real_k;
          frequency_k = ndiv (ofNat k) (ofNat n);
          periodSamples_k = (if frequency_k = Fin 0 then PInf else ndiv (Fin 1) frequency_k)
      in \<lparr>index = k, frequency = frequency_k, amplitude = amplitude_k, phase = phase_k,
          periodSamples = periodSamples_k\<rparr>)"

definition computeCycleComponents :: "number list \<Rightarrow> CycleComponent list" where
  "computeCycleComponents values =
     (let n = length values;
          dataMean = mean values;
          centered = map (\<lambda>value. nsub value dataMean) values;
          limit = n div 2;
          components = foldl (\<lambda>components k. components @ [harmonic n centered k])
                             [] [1..<Suc limit]
      in sortBy (\<lambda>a b. nsub (amplitude b) (amplitude a)) components)"

section \<open>Dominant cycles and their weighted period\<close>

record DominantCycle = CycleComponent +
  periodDays :: number

text \<open>Lines 229 to 240 of the request handler.\<close>

definition dominantCycles :: "CycleComponent list \<Rightarrow> number \<Rightarrow> DominantCycle list" where
  "dominantCycles components samplePeriodDays =
     take 4
       (filter (\<lambda>component. isFinite (periodDays component) \<and> ngt (amplitude component) (Fin 0))
          (map (\<lambda>component.
                  \<lparr>index = index component,
                   frequency = frequency component,
                   amplitude = amplitude component,
                   phase = phase component,
                   periodSamples = periodSamples component,
                   periodDays = nmul (periodSamples component) samplePeriodDays\<rparr>)
             (take 6 components)))"


section \<open>Summary text\<close>

text \<open>
  Strings are the UTF-8 bytes of the source's strings. The Bengali fragments of the
  template literals of \<^verbatim>\<open>summarizeCycles\<close> are given byte by byte.
\<close>

text \<open>Line 114, after the symbol: the fixed message that not enough data was found in the chosen range (145 UTF-8 bytes).\<close>

definition textInsufficient :: string where
  "textInsufficient =
    [CHR 0x20, CHR 0xE0, CHR 0xA6, CHR 0x8F, CHR 0xE0, CHR 0xA6, CHR 0xB0, CHR 0x20,
     CHR 0xE0, CHR 0xA6, CHR 0x9C, CHR 0xE0, CHR 0xA6, CHR 0xA8, CHR 0xE0, CHR 0xA7,
     CHR 0x8D, CHR 0xE0, CHR 0xA6, CHR 0xAF, CHR 0x20, CHR 0xE0, CHR 0xA6, CHR 0xAC,
     CHR 0xE0, CHR 0xA6, CHR 0xBE, CHR 0xE0, CHR 0xA6, CHR 0x9B, CHR 0xE0, CHR 0xA6,
     CHR 0xBE, CHR 0xE0, CHR 0xA6, CHR 0x87, CHR 0x20, CHR 0xE0, CHR 0xA6, CHR 0x95,
     CHR 0xE0, CHR 0xA6, CHR 0xB0, CHR 0xE0, CHR 0xA6, CHR 0xBE, CHR 0x20, CHR 0xE0,
     CHR 0xA6, CHR 0xB8, CHR 0xE0, CHR 0xA6, CHR 0xAE, CHR 0xE0, CHR 0xA7, CHR 0x9F,
     CHR 0x20, CHR 0xE0, CHR 0xA6, CHR 0xB8, CHR 0xE0, CHR 0xA7, CHR 0x80, CHR 0xE0,
     CHR 0xA6, CHR 0xAE, CHR 0xE0, CHR 0xA6, CHR 0xBE, CHR 0xE0, CHR 0xA7, CHR 0x9F,
     CHR 0x20, CHR 0xE0, CHR 0xA6, CHR 0xAA, CHR 0xE0, CHR 0xA6, CHR 0xB0, CHR 0xE0,
     CHR 0xA7, CHR 0x8D, CHR 0xE0, CHR 0xA6, CHR 0xAF, CHR 0xE0, CHR 0xA6, CHR 0xBE,
     CHR 0xE0, CHR 0xA6, CHR 0xAA, CHR 0xE0, CHR 0xA7, CHR 0x8D, CHR 0xE0, CHR 0xA6,
     CHR 0xA4, CHR 0x20, CHR 0xE0, CHR 0xA6, CHR 0xA4, CHR 0xE0, CHR 0xA6, CHR 0xA5,
     CHR 0xE0, CHR 0xA7, CHR 0x8D, CHR 0xE0, CHR 0xA6, CHR 0xAF, CHR 0x20, CHR 0xE0,
     CHR 0xA6, CHR 0xAA, CHR 0xE0, CHR 0xA6, CHR 0xBE, CHR 0xE0, CHR 0xA6, CHR 0x93,
     CHR 0xE0, CHR 0xA7, CHR 0x9F, CHR 0xE0, CHR 0xA6, CHR 0xBE, CHR 0x20, CHR 0xE0,
     CHR 0xA6, CHR 0xAF, CHR 0xE0, CHR 0xA6, CHR 0xBE, CHR 0xE0, CHR 0xA7, CHR 0x9F,
     CHR 0xE0, CHR 0xA6, CHR 0xA8, CHR 0xE0, CHR 0xA6, CHR 0xBF, CHR 0xE0, CHR 0xA5,
     CHR 0xA4]"

text \<open>Line 120: the words before the primary period (23 UTF-8 bytes).\<close>

definition textPrimaryA :: string where
  "textPrimaryA =
    [CHR 0xE0, CHR 0xA6, CHR 0xAE, CHR 0xE0, CHR 0xA7, CHR 0x82, CHR 0xE0, CHR 0xA6,
     CHR 0xB2, CHR 0x20, CHR 0xE0, CHR 0xA6, CHR 0x9A, CHR 0xE0, CHR 0xA6, CHR 0x95,
     CHR 0xE0, CHR 0xA7, CHR 0x8D, CHR 0xE0, CHR 0xA6, CHR 0xB0, CHR 0x20]"

text \<open>Line 120: the words between the primary period and the primary amplitude (69 UTF-8 bytes).\<close>

definition textPrimaryB :: string where
  "textPrimaryB =
    [CHR 0x20, CHR 0xE0, CHR 0xA6, CHR 0xA6, CHR 0xE0, CHR 0xA6, CHR 0xBF, CHR 0xE0,
     CHR 0xA6, CHR 0xA8, CHR 0xE0, CHR 0xA7, CHR 0x87, CHR 0xE0, CHR 0xA6, CHR 0xB0,
     CHR 0x20, CHR 0xE0, CHR 0xA6, CHR 0x95, CHR 0xE0, CHR 0xA6, CHR 0xBE, CHR 0xE0,
     CHR 0xA6, CHR 0x9B, CHR 0xE0, CHR 0xA6, CHR 0xBE, CHR 0xE0, CHR 0xA6, CHR 0x95,
     CHR 0xE0, CHR 0xA6, CHR 0xBE, CHR 0xE0, CHR 0xA6, CHR 0x9B, CHR 0xE0, CHR 0xA6,
     CHR 0xBF, CHR 0x2C, CHR 0x20, CHR 0xE0, CHR 0xA6, CHR 0xAF, CHR 0xE0, CHR 0xA6,
     CHR 0xBE, CHR 0xE0, CHR 0xA6, CHR 0xB0, CHR 0x20, CHR 0xE0, CHR 0xA6, CHR 0xB6,
     CHR 0xE0, CHR 0xA6, CHR 0x95, CHR 0xE0, CHR 0xA7, CHR 0x8D, CHR 0xE0, CHR 0xA6,
     CHR 0xA4, CHR 0xE0, CHR 0xA6, CHR 0xBF, CHR 0x20]"

text \<open>Line 120: the closing mark of the primary sentence (3 UTF-8 bytes).\<close>

definition textPrimaryC :: string where
  "textPrimaryC =
    [CHR 0xE0, CHR 0xA5, CHR 0xA4]"

text \<open>Line 122: the words before the secondary period (54 UTF-8 bytes).\<close>

definition textSecondaryA :: string where
  "textSecondaryA =
    [CHR 0xE0, CHR 0xA6, CHR 0xA6, CHR 0xE0, CHR 0xA7, CHR 0x8D, CHR 0xE0, CHR 0xA6,
     CHR 0xAC, CHR 0xE0, CHR 0xA6, CHR 0xBF, CHR 0xE0, CHR 0xA6, CHR 0xA4, CHR 0xE0,
     CHR 0xA7, CHR 0x80, CHR 0xE0, CHR 0xA7, CHR 0x9F, CHR 0x20, CHR 0xE0, CHR 0xA6,
     CHR 0x9A, CHR 0xE0, CHR 0xA6, CHR 0x95, CHR 0xE0, CHR 0xA7, CHR 0x8D, CHR 0xE0,
     CHR 0xA6, CHR 0xB0, CHR 0x20, CHR 0xE0, CHR 0xA6, CHR 0xB9, CHR 0xE0, CHR 0xA6,
     CHR 0xBF, CHR 0xE0, CHR 0xA6, CHR 0xB8, CHR 0xE0, CHR 0xA7, CHR 0x87, CHR 0xE0,
     CHR 0xA6, CHR 0xAC, CHR 0xE0, CHR 0xA7, CHR 0x87, CHR 0x20]"

text \<open>Line 122: the words after the secondary period (95 UTF-8 bytes).\<close>

definition textSecondaryB :: string where
  "textSecondaryB =
    [CHR 0x20, CHR 0xE0, CHR 0xA6, CHR 0xA6, CHR 0xE0, CHR 0xA6, CHR 0xBF, CHR 0xE0,
     CHR 0xA6, CHR 0xA8, CHR 0xE0, CHR 0xA7, CHR 0x87, CHR 0xE0, CHR 0xA6, CHR 0xB0,
     CHR 0x20, CHR 0xE0, CHR 0xA6, CHR 0x8F, CHR 0xE0, CHR 0xA6, CHR 0x95, CHR 0xE0,
     CHR 0xA6, CHR 0x9F, CHR 0xE0, CHR 0xA6, CHR 0xBF, CHR 0x20, CHR 0xE0, CHR 0xA6,
     CHR 0xAA, CHR 0xE0, CHR 0xA7, CHR 0x81, CHR 0xE0, CHR 0xA6, CHR 0xA8, CHR 0xE0,
     CHR 0xA6, CHR 0xB0, CHR 0xE0, CHR 0xA6, CHR 0xBE, CHR 0xE0, CHR 0xA6, CHR 0xAC,
     CHR 0xE0, CHR 0xA7, CHR 0x83, CHR 0xE0, CHR 0xA6, CHR 0xA4, CHR 0xE0, CHR 0xA7,
     CHR 0x8D, CHR 0xE0, CHR 0xA6, CHR 0xA4, CHR 0xE0, CHR 0xA6, CHR 0xBF, CHR 0x20,
     CHR 0xE0, CHR 0xA6, CHR 0xAA, CHR 0xE0, CHR 0xA6, CHR 0xBE, CHR 0xE0, CHR 0xA6,
     CHR 0x93, CHR 0xE0, CHR 0xA7, CHR 0x9F, CHR 0xE0, CHR 0xA6, CHR 0xBE, CHR 0x20,
     CHR 0xE0, CHR 0xA6, CHR 0x97, CHR 0xE0, CHR 0xA7, CHR 0x87, CHR 0xE0, CHR 0xA6,
     CHR 0x9B, CHR 0xE0, CHR 0xA7, CHR 0x87, CHR 0xE0, CHR 0xA5, CHR 0xA4]"

text \<open>Line 123: the sentence saying that no second strong cycle is prominent (101 UTF-8 bytes).\<close>

definition textNoSecondary :: string where
  "textNoSecondary =
    [CHR 0xE0, CHR 0xA6, CHR 0xA6, CHR 0xE0, CHR 0xA7, CHR 0x8D, CHR 0xE0, CHR 0xA6,
     CHR 0xAC, CHR 0xE0, CHR 0xA6, CHR 0xBF, CHR 0xE0, CHR 0xA6, CHR 0xA4, CHR 0xE0,
     CHR 0xA7, CHR 0x80, CHR 0xE0, CHR 0xA7, CHR 0x9F, CHR 0x20, CHR 0xE0, CHR 0xA6,
     CHR 0xB6, CHR 0xE0, CHR 0xA6, CHR 0x95, CHR 0xE0, CHR 0xA7, CHR 0x8D, CHR 0xE0,
     CHR 0xA6, CHR 0xA4, CHR 0xE0, CHR 0xA6, CHR 0xBF, CHR 0xE0, CHR 0xA6, CHR 0xB6,
     CHR 0xE0, CHR 0xA6, CHR 0xBE, CHR 0xE0, CHR 0xA6, CHR 0xB2, CHR 0xE0, CHR 0xA7,
     CHR 0x80, CHR 0x20, CHR 0xE0, CHR 0xA6, CHR 0x9A, CHR 0xE0, CHR 0xA6, CHR 0x95,
     CHR 0xE0, CHR 0xA7, CHR 0x8D, CHR 0xE0, CHR 0xA6, CHR 0xB0, CHR 0x20, CHR 0xE0,
     CHR 0xA6, CHR 0xA4, CHR 0xE0, CHR 0xA7, CHR 0x87, CHR 0xE0, CHR 0xA6, CHR 0xAE,
     CHR 0xE0, CHR 0xA6, CHR 0xA8, CHR 0x20, CHR 0xE0, CHR 0xA6, CHR 0xAA, CHR 0xE0,
     CHR 0xA7, CHR 0x8D, CHR 0xE0, CHR 0xA6, CHR 0xB0, CHR 0xE0, CHR 0xA6, CHR 0x95,
     CHR 0xE0, CHR 0xA6, CHR 0x9F, CHR 0x20, CHR 0xE0, CHR 0xA6, CHR 0xA8, CHR 0xE0,
     CHR 0xA7, CHR 0x9F, CHR 0xE0, CHR 0xA5, CHR 0xA4]"

text \<open>Line 125: between the symbol and the range (8 UTF-8 bytes).\<close>

definition textOf :: string where
  "textOf =
    [CHR 0x20, CHR 0xE0, CHR 0xA6, CHR 0x8F, CHR 0xE0, CHR 0xA6, CHR 0xB0, CHR 0x20]"

text \<open>Line 125: between the range and the primary sentence (17 UTF-8 bytes).\<close>

definition textData :: string where
  "textData =
    [CHR 0x20, CHR 0xE0, CHR 0xA6, CHR 0xA1, CHR 0xE0, CHR 0xA7, CHR 0x87, CHR 0xE0,
     CHR 0xA6, CHR 0x9F, CHR 0xE0, CHR 0xA6, CHR 0xBE, CHR 0xE0, CHR 0xA7, CHR 0x9F,
     CHR 0x20]"

text \<open>Line 125: the closing sentence, inviting to plan entry and exit on this basis (156 UTF-8 bytes).\<close>

definition textClosing :: string where
  "textClosing =
    [CHR 0x20, CHR 0xE0, CHR 0xA6, CHR 0x8F, CHR 0xE0, CHR 0xA6, CHR 0x87, CHR 0x20,
     CHR 0xE0, CHR 0xA6, CHR 0xA4, CHR 0xE0, CHR 0xA6, CHR 0xA5, CHR 0xE0, CHR 0xA7,
     CHR 0x8D, CHR 0xE0, CHR 0xA6, CHR 0xAF, CHR 0xE0, CHR 0xA7, CHR 0x87, CHR 0xE0,
     CHR 0xA6, CHR 0xB0, CHR 0x20, CHR 0xE0, CHR 0xA6, CHR 0xAD, CHR 0xE0, CHR 0xA6,
     CHR 0xBF, CHR 0xE0, CHR 0xA6, CHR 0xA4, CHR 0xE0, CHR 0xA7, CHR 0x8D, CHR 0xE0,
     CHR 0xA6, CHR 0xA4, CHR 0xE0, CHR 0xA6, CHR 0xBF, CHR 0xE0, CHR 0xA6, CHR 0xA4,
     CHR 0xE0, CHR 0xA7, CHR 0x87, CHR 0x20, CHR 0xE0, CHR 0xA6, CHR 0x86, CHR 0xE0,
     CHR 0xA6, CHR 0xAA, CHR 0xE0, CHR 0xA6, CHR 0xA8, CHR 0xE0, CHR 0xA6, CHR 0xBE,
     CHR 0xE0, CHR 0xA6, CHR 0xB0, CHR 0x20, CHR 0xE0, CHR 0xA6, CHR 0x8F, CHR 0xE0,
     CHR 0xA6, CHR 0xA8, CHR 0xE0, CHR 0xA7, CHR 0x8D, CHR 0xE0, CHR 0xA6, CHR 0x9F,
     CHR 0xE0, CHR 0xA7, CHR 0x8D, CHR 0xE0, CHR 0xA6, CHR 0xB0, CHR 0xE0, CHR 0xA6,
     CHR 0xBF, CHR 0x20, CHR 0xE0, CHR 0xA6, CHR 0x93, CHR 0x20, CHR 0xE0, CHR 0xA6,
     CHR 0x8F, CHR 0xE0, CHR 0xA6, CHR 0x95, CHR 0xE0, CHR 0xA7, CHR 0x8D, CHR 0xE0,
     CHR 0xA6, CHR 0xB8, CHR 0xE0, CHR 0xA6, CHR 0xBF, CHR 0xE0, CHR 0xA6, CHR 0x9F,
     CHR 0x20, CHR 0xE0, CHR 0xA6, CHR 0xAA, CHR 0xE0, CHR 0xA6, CHR 0xB0, CHR 0xE0,
     CHR 0xA6, CHR 0xBF, CHR 0xE0, CHR 0xA6, CHR 0x95, CHR 0xE0, CHR 0xA6, CHR 0xB2,
     CHR 0xE0, CHR 0xA7, CHR 0x8D, CHR 0xE0, CHR 0xA6, CHR 0xAA, CHR 0xE0, CHR 0xA6,
     CHR 0xA8, CHR 0xE0, CHR 0xA6, CHR 0xBE, CHR 0x20, CHR 0xE0, CHR 0xA6, CHR 0x95,
     CHR 0xE0, CHR 0xA6, CHR 0xB0, CHR 0xE0, CHR 0xA7, CHR 0x81, CHR 0xE0, CHR 0xA6,
     CHR 0xA8, CHR 0xE0, CHR 0xA5, CHR 0xA4]"

text \<open>The decimal digits of a natural number.\<close>

definition digitChar :: "nat \<Rightarrow> char" where
  "digitChar d = ''0123456789'' ! d"

fun decimalDigits :: "nat \<Rightarrow> string" where
  "decimalDigits n =
     (if n < 10 then [digitChar n] else decimalDigits (n div 10) @ [digitChar (n mod 10)])"

declare decimalDigits.simps [simp del]

text \<open>
  \<^verbatim>\<open>Number.prototype.toFixed(f)\<close> after ECMAScript, for \<open>f\<close> from 0 to 100 (the source
  calls it with 1 and 2): a number that is not finite is named; the sign is put in
  front of the rendering of the magnitude; the magnitude \<open>x\<close> is rendered through the
  integer \<open>n\<close> nearest to \<open>x * 10 ^ f\<close> (the larger one of two), its digits padded with
  zeros to \<open>f + 1\<close> digits and the point put before the last \<open>f\<close> of them. A magnitude
  from \<open>10 ^ 21\<close> on is rendered by \<^verbatim>\<open>Number::toString\<close> in exponent notation, from the
  digits of the double: this is the parameter \<open>numberToString\<close>.
\<close>

definition fixedMagnitude :: "nat \<Rightarrow> real \<Rightarrow> string" where
  "fixedMagnitude f x =
     (let n = nat \<lfloor>x * 10 ^ f + 1 / 2\<rfloor>;
          m = decimalDigits n
      in if f = 0 then m
         else (let m' = replicate (f + 1 - length m) (CHR ''0'') @ m;
                   k = length m'
               in take (k - f) m' @ ''.'' @ drop (k - f) m'))"

fun toFixed :: "(real \<Rightarrow> string) \<Rightarrow> nat \<Rightarrow> number \<Rightarrow> string" where
  "toFixed numberToString f NaN = ''NaN''"
| "toFixed numberToString f PInf = ''Infinity''"
| "toFixed numberToString f NInf = ''-Infinity''"
| "toFixed numberToString f (Fin x) =
     (let s = (if x < 0 then ''-'' else []);
          x' = (if x < 0 then - x else x)
      in if 10 ^ 21 \<le> x' then s @ numberToString x'
         else s @ fixedMagnitude f x')"

text \<open>
  \<^verbatim>\<open>summarizeCycles\<close>, lines 108 to 126 (\<open>rangeLabel\<close> is the parameter \<^verbatim>\<open>range\<close>).
  \<^verbatim>\<open>dominantCycles[1]\<close> is \<^verbatim>\<open>undefined\<close> on a list of one entry, which the conditional
  tests.
\<close>

definition summarizeCycles ::
  "(real \<Rightarrow> string) \<Rightarrow> string \<Rightarrow> DominantCycle list \<Rightarrow> string \<Rightarrow> error + string" where
  "summarizeCycles numberToString symbol cycles rangeLabel =
     (if length cycles = 0 then Inr (symbol @ textInsufficient)
      else
        (case cycles of
           [] \<Rightarrow> Inl TypeError
         | primary # others \<Rightarrow>
             (let secondary = (case others of [] \<Rightarrow> None | c # _ \<Rightarrow> Some c);
                  primaryText =
                    textPrimaryA @ toFixed numberToString 1 (periodDays primary) @ textPrimaryB
                    @ toFixed numberToString 2 (amplitude primary) @ textPrimaryC;
                  secondaryText =
                    (case secondary of
                       Some c \<Rightarrow>
                         textSecondaryA @ toFixed numberToString 1 (periodDays c) @ textSecondaryB
                     | None \<Rightarrow> textNoSecondary)
              in Inr (symbol @ textOf @ rangeLabel @ textData @ primaryText @ '' '' @ secondaryText
                      @ textClosing))))"


section \<open>Reference definitions\<close>









text \<open>
  \<^verbatim>\<open>x >= y\<close> on numbers, and the lists of numbers that descend in this order (the
  amplitudes of a list sorted by amplitude).
\<close>

definition nge :: "number \<Rightarrow> number \<Rightarrow> bool" where
  "nge x y \<longleftrightarrow> ngt x y \<or> (x = y \<and> x \<noteq> NaN)"

definition descending :: "number list \<Rightarrow> bool" where
  "descending as = sorted_wrt nge as"



text \<open>The test of line 239, on a component before its period in days is attached.\<close>

definition survives :: "number \<Rightarrow> CycleComponent \<Rightarrow> bool" where
  "survives samplePeriodDays c \<longleftrightarrow>
     isFinite (nmul (periodSamples c) samplePeriodDays) \<and> ngt (amplitude c) (Fin 0)"

text \<open>
  Reading a rendering back: the decimal digits, the digit a character stands for, and the
  natural number a string of digits stands for.
\<close>

definition isDigit :: "char \<Rightarrow> bool" where
  "isDigit c \<longleftrightarrow> c \<in> set ''0123456789''"

definition digitValue :: "char \<Rightarrow> nat" where
  "digitValue c = of_char c - 48"

definition decimalValue :: "string \<Rightarrow> nat" where
  "decimalValue s = foldl (\<lambda>v c. 10 * v + digitValue c) 0 s"

section \<open>Arithmetic on finite numbers\<close>

lemma nsub_Fin [simp]: "nsub (Fin a) (Fin b) = Fin (a - b)"
  by (simp add: nsub_def)

lemma npow2_Fin [simp]: "npow2 (Fin a) = Fin (a\<^sup>2)"
  by (simp add: npow2_def power2_eq_square)








section \<open>The trend estimator\<close>












section \<open>The spectral decomposition\<close>
































section \<open>The selection of the dominant cycles\<close>

lemma length_dominantCycles: "length (dominantCycles components s) \<le> 4"
  by (simp add: dominantCycles_def)

lemma dominantCycles_Nil: "dominantCycles [] s = []"
  by (simp add: dominantCycles_def)

lemma dominantCycles_entry:
  assumes "d \<in> set (dominantCycles components s)"
  shows "isFinite (periodDays d) \<and> ngt (amplitude d) (Fin 0)
         \<and> periodDays d = nmul (periodSamples d) s"
proof -
  from assms have "d \<in> set (filter (\<lambda>component. isFinite (periodDays component) \<and> ngt (amplitude component) (Fin 0))
          (map (\<lambda>component.
                  \<lparr>index = index component,
                   frequency = frequency component,
                   amplitude = amplitude component,
                   phase = phase component,
                   periodSamples = periodSamples component,
                   periodDays = nmul (periodSamples component) s\<rparr>)
             (take 6 components)))"
    unfolding dominantCycles_def by (rule in_set_takeD)
  then show ?thesis by auto
qed

lemma rebuild_component:
  "(\<lambda>x::CycleComponent. \<lparr>index = index x, frequency = frequency x, amplitude = amplitude x,
        phase = phase x, periodSamples = periodSamples x\<rparr>) = (\<lambda>x. x)"
  by (rule ext) simp

lemma survives_fun:
  "survives s = (\<lambda>x. isFinite (nmul (periodSamples x) s) \<and> ngt (amplitude x) (Fin 0))"
  by (rule ext) (simp add: survives_def)

lemma truncate_dominantCycles:
  "map CycleComponent.truncate (dominantCycles components s)
     = take 4 (filter (survives s) (take 6 components))"
  by (simp add: dominantCycles_def take_map filter_map comp_def survives_fun
       CycleComponent.truncate_def rebuild_component)


lemma amplitude_truncate: "amplitude (CycleComponent.truncate d) = amplitude d"
  by (simp add: CycleComponent.truncate_def)

lemma periodSamples_truncate: "periodSamples (CycleComponent.truncate d) = periodSamples d"
  by (simp add: CycleComponent.truncate_def)

lemma amplitudes_dominantCycles:
  "map amplitude (dominantCycles components s)
     = map amplitude (take 4 (filter (survives s) (take 6 components)))"
proof -
  have "map amplitude (dominantCycles components s)
          = map amplitude (map CycleComponent.truncate (dominantCycles components s))"
    by (simp add: comp_def amplitude_truncate)
  then show ?thesis by (simp only: truncate_dominantCycles)
qed

lemma descending_dominantCycles:
  assumes "descending (map amplitude components)"
  shows "descending (map amplitude (dominantCycles components s))"
proof -
  from assms have "sorted_wrt (\<lambda>a b. nge (amplitude a) (amplitude b)) components"
    by (simp add: descending_def sorted_wrt_map)
  then have "sorted_wrt (\<lambda>a b. nge (amplitude a) (amplitude b))
               (take 4 (filter (survives s) (take 6 components)))"
    by (intro sorted_wrt_take sorted_wrt_filter)
  then show ?thesis
    by (simp add: amplitudes_dominantCycles descending_def sorted_wrt_map)
qed

lemma dominantCycles_source:
  assumes "d \<in> set (dominantCycles components s)"
  shows "CycleComponent.truncate d \<in> set components"
proof -
  from assms have "CycleComponent.truncate d
      \<in> set (map CycleComponent.truncate (dominantCycles components s))"
    by simp
  then have "CycleComponent.truncate d \<in> set (take 4 (filter (survives s) (take 6 components)))"
    by (simp only: truncate_dominantCycles)
  then have "CycleComponent.truncate d \<in> set (filter (survives s) (take 6 components))"
    by (rule in_set_takeD)
  then have "CycleComponent.truncate d \<in> set (take 6 components)"
    by simp
  then show ?thesis by (rule in_set_takeD)
qed

lemma ngt_nmul_pos: "ngt x (Fin 0) \<Longrightarrow> ngt y (Fin 0) \<Longrightarrow> ngt (nmul x y) (Fin 0)"
  by (cases x; cases y) simp_all

lemma periodDays_positive:
  assumes "ngt s (Fin 0)" and "\<forall>c\<in>set components. ngt (periodSamples c) (Fin 0)"
    and "d \<in> set (dominantCycles components s)"
  shows "ngt (periodDays d) (Fin 0)"
proof -
  from dominantCycles_source[OF assms(3)] assms(2)
  have "ngt (periodSamples d) (Fin 0)"
    by (auto simp: periodSamples_truncate dest!: bspec)
  with assms(1) have "ngt (nmul (periodSamples d) s) (Fin 0)"
    by (intro ngt_nmul_pos)
  then show ?thesis using dominantCycles_entry[OF assms(3)] by simp
qed

text \<open>
  C2, as the code has it. The selection is the first four of those of the first six
  components that pass the test of line 239, each with its period in days,
  \<open>periodSamples * samplePeriodDays\<close>, attached. So it has at most four entries, each
  with a finite period in days and an amplitude above 0; it descends in amplitude when
  the component list does; it is empty on the empty list. The period in days is above 0
  when the sample spacing and the periods in samples are above 0: the test of line 239
  does not ask for it.
\<close>

theorem dominantCycles_selection:
  "map CycleComponent.truncate (dominantCycles components s)
     = take 4 (filter (survives s) (take 6 components))
   \<and> length (dominantCycles components s) \<le> 4
   \<and> (\<forall>d\<in>set (dominantCycles components s).
         isFinite (periodDays d) \<and> ngt (amplitude d) (Fin 0)
         \<and> periodDays d = nmul (periodSamples d) s)
   \<and> (descending (map amplitude components)
        \<longrightarrow> descending (map amplitude (dominantCycles components s)))
   \<and> (ngt s (Fin 0) \<and> (\<forall>c\<in>set components. ngt (periodSamples c) (Fin 0))
        \<longrightarrow> (\<forall>d\<in>set (dominantCycles components s). ngt (periodDays d) (Fin 0)))
   \<and> dominantCycles [] s = []"
  using truncate_dominantCycles [of components s] length_dominantCycles [of components s]
    dominantCycles_entry [of _ components s] descending_dominantCycles [of components s]
    periodDays_positive [of s components] dominantCycles_Nil [of s]
  by blast

theorem dominantCycles_selection_witness:
  "descending (map amplitude
      [\<lparr>index = 2, frequency = Fin (1 / 2), amplitude = Fin 2, phase = Fin pi, periodSamples = Fin 2\<rparr>,
       \<lparr>index = 1, frequency = Fin (1 / 4), amplitude = Fin 0, phase = Fin 0, periodSamples = Fin 4\<rparr>])
   \<and> ngt (Fin 1) (Fin 0)
   \<and> dominantCycles
      [\<lparr>index = 2, frequency = Fin (1 / 2), amplitude = Fin 2, phase = Fin pi, periodSamples = Fin 2\<rparr>,
       \<lparr>index = 1, frequency = Fin (1 / 4), amplitude = Fin 0, phase = Fin 0, periodSamples = Fin 4\<rparr>]
      (Fin 1)
     = [\<lparr>index = 2, frequency = Fin (1 / 2), amplitude = Fin 2, phase = Fin pi, periodSamples = Fin 2,
         periodDays = Fin 2\<rparr>]"
  using dominantCycles_selection [of "[\<lparr>index = 2, frequency = Fin (1 / 2), amplitude = Fin 2, phase = Fin pi, periodSamples = Fin 2\<rparr>,
       \<lparr>index = 1, frequency = Fin (1 / 4), amplitude = Fin 0, phase = Fin 0, periodSamples = Fin 4\<rparr>]" "Fin 1"]
  by (simp add: dominantCycles_def descending_def nge_def)


text \<open>
  The claim C2 as stated fails: for a sample spacing of 0 days (all timestamps equal) the
  one component of the series 1, 3 is selected with the period 0 days, which is not
  positive.
\<close>

theorem dominantCycles_zero_spacing:
  "map periodDays (dominantCycles (computeCycleComponents (map Fin [1, 3])) (Fin 0)) = [Fin 0]
   \<and> \<not> ngt (Fin 0) (Fin 0)"
  by (simp add: dominantCycles_def computeCycleComponents_def harmonic_def mean_def ofNat_def
        MathPI_def Let_def upt_rec atan2_def nsub_def)

section \<open>The weighted period\<close>













section \<open>The summary text\<close>

lemma digit_cases:
  assumes "d < (10::nat)"
  shows "d = 0 \<or> d = 1 \<or> d = 2 \<or> d = 3 \<or> d = 4 \<or> d = 5 \<or> d = 6 \<or> d = 7 \<or> d = 8 \<or> d = 9"
  using assms by arith

lemma digitChar_digit: "d < 10 \<Longrightarrow> isDigit (digitChar d)"
  using digit_cases[of d] by (auto simp: isDigit_def digitChar_def)

lemma digitValue_digitChar: "d < 10 \<Longrightarrow> digitValue (digitChar d) = d"
  using digit_cases[of d] by (auto simp: digitValue_def digitChar_def)

lemma decimalDigits_digits: "\<forall>c\<in>set (decimalDigits n). isDigit c"
proof (induction n rule: decimalDigits.induct)
  case (1 n)
  show ?case
  proof (cases "n < 10")
    case True
    then show ?thesis by (subst decimalDigits.simps) (simp add: digitChar_digit)
  next
    case False
    with 1 show ?thesis
      by (subst decimalDigits.simps) (simp add: digitChar_digit)
  qed
qed

lemma decimalValue_snoc: "decimalValue (s @ [c]) = 10 * decimalValue s + digitValue c"
  by (simp add: decimalValue_def)

lemma decimalValue_decimalDigits: "decimalValue (decimalDigits n) = n"
proof (induction n rule: decimalDigits.induct)
  case (1 n)
  show ?case
  proof (cases "n < 10")
    case True
    then show ?thesis
      by (subst decimalDigits.simps) (simp add: decimalValue_def digitValue_digitChar)
  next
    case False
    with 1 have "decimalValue (decimalDigits (n div 10)) = n div 10" by simp
    with False show ?thesis
      by (subst decimalDigits.simps) (simp add: decimalValue_snoc digitValue_digitChar)
  qed
qed

lemma decimalDigits_nonempty: "decimalDigits n \<noteq> []"
  by (subst decimalDigits.simps) simp

lemma decimalValue_zeros: "decimalValue (replicate k (CHR ''0'') @ s) = decimalValue s"
proof -
  have "foldl (\<lambda>v c. 10 * v + digitValue c) 0 (replicate k (CHR ''0'')) = 0"
    by (induction k) (simp_all add: digitValue_def)
  then show ?thesis by (simp add: decimalValue_def)
qed

lemma isDigit_zero: "isDigit (CHR ''0'')"
  by (simp add: isDigit_def)

lemma fixedMagnitude_format:
  assumes "0 < f"
  shows "\<exists>a b. fixedMagnitude f x = a @ ''.'' @ b \<and> a \<noteq> [] \<and> length b = f
           \<and> (\<forall>c\<in>set (a @ b). isDigit c)
           \<and> decimalValue (a @ b) = nat \<lfloor>x * 10 ^ f + 1 / 2\<rfloor>"
proof -
  define n where "n = nat \<lfloor>x * 10 ^ f + 1 / 2\<rfloor>"
  define m where "m = replicate (f + 1 - length (decimalDigits n)) (CHR ''0'') @ decimalDigits n"
  define a where "a = take (length m - f) m"
  define b where "b = drop (length m - f) m"
  have len: "f + 1 \<le> length m"
    by (simp add: m_def)
  have "fixedMagnitude f x = a @ ''.'' @ b"
    using assms by (simp add: fixedMagnitude_def Let_def n_def m_def a_def b_def)
  moreover have "a \<noteq> []" using len by (auto simp: a_def)
  moreover have "length b = f" using len by (simp add: b_def)
  moreover have ab: "a @ b = m" by (simp add: a_def b_def)
  have "\<forall>c\<in>set (a @ b). isDigit c"
    unfolding ab m_def using decimalDigits_digits[of n] isDigit_zero by auto
  moreover have "decimalValue (a @ b) = n"
    unfolding ab m_def by (simp add: decimalValue_zeros decimalValue_decimalDigits)
  ultimately show ?thesis unfolding n_def by blast
qed

lemma rounding_error:
  assumes "0 \<le> (x::real)"
  shows "\<bar>real (nat \<lfloor>x * 10 ^ f + 1 / 2\<rfloor>) / 10 ^ f - x\<bar> \<le> 1 / (2 * 10 ^ f)"
proof -
  define y where "y = x * 10 ^ f"
  have y0: "0 \<le> y" using assms by (simp add: y_def)
  then have "0 \<le> \<lfloor>y + 1 / 2\<rfloor>" by simp
  then have n: "real (nat \<lfloor>y + 1 / 2\<rfloor>) = of_int \<lfloor>y + 1 / 2\<rfloor>" by simp
  have "\<bar>of_int \<lfloor>y + 1 / 2\<rfloor> - y\<bar> \<le> 1 / 2"
    by linarith
  then have "\<bar>real (nat \<lfloor>y + 1 / 2\<rfloor>) - y\<bar> \<le> 1 / 2" using n by simp
  then have "\<bar>real (nat \<lfloor>y + 1 / 2\<rfloor>) - y\<bar> / 10 ^ f \<le> (1 / 2) / 10 ^ f"
    by (intro divide_right_mono) simp_all
  moreover have "real (nat \<lfloor>y + 1 / 2\<rfloor>) / 10 ^ f - x = (real (nat \<lfloor>y + 1 / 2\<rfloor>) - y) / 10 ^ f"
    by (simp add: y_def field_simps)
  then have "\<bar>real (nat \<lfloor>y + 1 / 2\<rfloor>) / 10 ^ f - x\<bar> = \<bar>real (nat \<lfloor>y + 1 / 2\<rfloor>) - y\<bar> / 10 ^ f"
    by simp
  ultimately show ?thesis by (simp add: y_def)
qed

lemma toFixed_fixed_notation:
  assumes "0 < f" and "\<bar>x\<bar> < 10 ^ 21"
  shows "\<exists>a b. toFixed numberToString f (Fin x) = (if x < 0 then ''-'' else []) @ a @ ''.'' @ b
           \<and> a \<noteq> [] \<and> length b = f \<and> (\<forall>c\<in>set (a @ b). isDigit c)
           \<and> \<bar>real (decimalValue (a @ b)) / 10 ^ f - \<bar>x\<bar>\<bar> \<le> 1 / (2 * 10 ^ f)"
proof -
  from fixedMagnitude_format[OF assms(1), of "\<bar>x\<bar>"] obtain a b where
    ab: "fixedMagnitude f \<bar>x\<bar> = a @ ''.'' @ b" "a \<noteq> []" "length b = f"
      "\<forall>c\<in>set (a @ b). isDigit c" "decimalValue (a @ b) = nat \<lfloor>\<bar>x\<bar> * 10 ^ f + 1 / 2\<rfloor>"
    by blast
  have "toFixed numberToString f (Fin x) = (if x < 0 then ''-'' else []) @ fixedMagnitude f \<bar>x\<bar>"
    using assms(2) by (simp add: Let_def abs_if)
  moreover have "\<bar>real (decimalValue (a @ b)) / 10 ^ f - \<bar>x\<bar>\<bar> \<le> 1 / (2 * 10 ^ f)"
    unfolding ab(5) by (rule rounding_error) simp
  ultimately show ?thesis using ab(1-4) by metis
qed


lemma summarizeCycles_Nil:
  "summarizeCycles numberToString symbol [] rangeLabel = Inr (symbol @ textInsufficient)"
  by (simp add: summarizeCycles_def)

lemma summarizeCycles_single:
  "summarizeCycles numberToString symbol [p] rangeLabel =
     Inr (symbol @ textOf @ rangeLabel @ textData
          @ textPrimaryA @ toFixed numberToString 1 (periodDays p)
          @ textPrimaryB @ toFixed numberToString 2 (amplitude p) @ textPrimaryC
          @ '' '' @ textNoSecondary @ textClosing)"
  by (simp add: summarizeCycles_def)

lemma summarizeCycles_two:
  "summarizeCycles numberToString symbol (p # q # others) rangeLabel =
     Inr (symbol @ textOf @ rangeLabel @ textData
          @ textPrimaryA @ toFixed numberToString 1 (periodDays p)
          @ textPrimaryB @ toFixed numberToString 2 (amplitude p) @ textPrimaryC
          @ '' '' @ textSecondaryA @ toFixed numberToString 1 (periodDays q) @ textSecondaryB
          @ textClosing)"
  by (simp add: summarizeCycles_def)

text \<open>
  C6. On the empty list the summary is the symbol followed by the fixed message of line
  114, whatever the range. On a non-empty list it is the template of line 125 around the
  period of the first cycle rendered by \<^verbatim>\<open>toFixed(1)\<close> and its amplitude rendered by
  \<^verbatim>\<open>toFixed(2)\<close>, followed by the period of the second cycle rendered by \<^verbatim>\<open>toFixed(1)\<close>
  when there is a second cycle and by the fixed sentence of line 123 when there is none.
  It never throws. \<^verbatim>\<open>toFixed(f)\<close> of a finite number of magnitude below \<open>10 ^ 21\<close> is the
  sign, at least one digit, the point and exactly \<open>f\<close> digits, and these digits stand for
  the magnitude rounded to \<open>f\<close> decimals, at most half a unit of the last decimal away.
\<close>

theorem summarizeCycles_template:
  "summarizeCycles numberToString symbol [] rangeLabel = Inr (symbol @ textInsufficient)
   \<and> summarizeCycles numberToString symbol [p] rangeLabel =
       Inr (symbol @ textOf @ rangeLabel @ textData
            @ textPrimaryA @ toFixed numberToString 1 (periodDays p)
            @ textPrimaryB @ toFixed numberToString 2 (amplitude p) @ textPrimaryC
            @ '' '' @ textNoSecondary @ textClosing)
   \<and> summarizeCycles numberToString symbol (p # q # others) rangeLabel =
       Inr (symbol @ textOf @ rangeLabel @ textData
            @ textPrimaryA @ toFixed numberToString 1 (periodDays p)
            @ textPrimaryB @ toFixed numberToString 2 (amplitude p) @ textPrimaryC
            @ '' '' @ textSecondaryA @ toFixed numberToString 1 (periodDays q) @ textSecondaryB
            @ textClosing)
   \<and> (0 < f \<and> \<bar>x\<bar> < 10 ^ 21 \<longrightarrow>
        (\<exists>a b. toFixed numberToString f (Fin x) = (if x < 0 then ''-'' else []) @ a @ ''.'' @ b
           \<and> a \<noteq> [] \<and> length b = f \<and> (\<forall>c\<in>set (a @ b). isDigit c)
           \<and> \<bar>real (decimalValue (a @ b)) / 10 ^ f - \<bar>x\<bar>\<bar> \<le> 1 / (2 * 10 ^ f)))"
  using summarizeCycles_Nil [of numberToString symbol rangeLabel]
    summarizeCycles_single [of numberToString symbol p rangeLabel]
    summarizeCycles_two [of numberToString symbol p q others rangeLabel]
    toFixed_fixed_notation [of f x numberToString]
  by blast

lemma toFixed_example_period: "toFixed (\<lambda>x. []) (Suc 0) (Fin (321 / 20)) = ''16.1''"
  by code_simp

lemma toFixed_example_amplitude: "toFixed (\<lambda>x. []) 2 (Fin (5 / 2)) = ''2.50''"
  by code_simp

lemma toFixed_example_second: "toFixed (\<lambda>x. []) (Suc 0) (Fin 8) = ''8.0''"
  by code_simp

theorem summarizeCycles_template_witness:
  "summarizeCycles (\<lambda>x. []) ''INFY.NS''
      [\<lparr>index = 4, frequency = Fin (1 / 16), amplitude = Fin (5 / 2), phase = Fin 0,
        periodSamples = Fin 16, periodDays = Fin (321 / 20)\<rparr>] ''1y''
     = Inr (''INFY.NS'' @ textOf @ ''1y'' @ textData @ textPrimaryA @ ''16.1'' @ textPrimaryB
            @ ''2.50'' @ textPrimaryC @ '' '' @ textNoSecondary @ textClosing)
   \<and> summarizeCycles (\<lambda>x. []) ''INFY.NS''
      [\<lparr>index = 4, frequency = Fin (1 / 16), amplitude = Fin (5 / 2), phase = Fin 0,
        periodSamples = Fin 16, periodDays = Fin (321 / 20)\<rparr>,
       \<lparr>index = 8, frequency = Fin (1 / 8), amplitude = Fin 1, phase = Fin 0,
        periodSamples = Fin 8, periodDays = Fin 8\<rparr>] ''1y''
     = Inr (''INFY.NS'' @ textOf @ ''1y'' @ textData @ textPrimaryA @ ''16.1'' @ textPrimaryB
            @ ''2.50'' @ textPrimaryC @ '' '' @ textSecondaryA @ ''8.0'' @ textSecondaryB
            @ textClosing)
   \<and> (0::nat) < 1 \<and> \<bar>321 / 20 :: real\<bar> < 10 ^ 21"
  using summarizeCycles_template [of "\<lambda>x. []" "''INFY.NS''" "''1y''"
      "\<lparr>index = 4, frequency = Fin (1 / 16), amplitude = Fin (5 / 2), phase = Fin 0,
        periodSamples = Fin 16, periodDays = Fin (321 / 20)\<rparr>"
      "\<lparr>index = 8, frequency = Fin (1 / 8), amplitude = Fin 1, phase = Fin 0,
        periodSamples = Fin 8, periodDays = Fin 8\<rparr>" "[]" 1 "321 / 20"]
  by (simp add: toFixed_example_period toFixed_example_amplitude toFixed_example_second
        del: toFixed.simps)

end
